theory Spec2Isabelle
  imports Main
begin

section \<open>Go values used by the client\<close>

text \<open>
  A Go \<open>error\<close> is carried by its message text; \<open>nil\<close> is \<open>None\<close> of
  \<open>error option\<close>. A run-time panic is a value of its own, so that a call that does not
  return normally is a branch of the model.
\<close>

datatype error = GoError string

fun error_text :: "error \<Rightarrow> string" where
  "error_text (GoError s) = s"

datatype panic = NilPointerDereference

text \<open>
  What \<open>encoding/json\<close> stores in an \<open>interface{}\<close>: nil, bool, a number, a string,
  a slice, or a map with string keys. The number is a \<open>float64\<close> in Go; the model carries
  integral numbers, which is all the properties below look at.
\<close>

datatype jvalue =
    JNull
  | JBool bool
  | JNumber int
  | JString string
  | JArray "jvalue list"
  | JObject "(string \<times> jvalue) list"

text \<open>
  A Go map is \<open>nil\<close> (\<open>None\<close>) or allocated (\<open>Some m\<close>). Reading a key of a nil map
  finds nothing and does not panic.
\<close>

type_synonym gomap = "(string \<rightharpoonup> jvalue) option"

definition map_index :: "gomap \<Rightarrow> string \<Rightarrow> jvalue option" where
  "map_index m key = (case m of None \<Rightarrow> None | Some f \<Rightarrow> f key)"

text \<open>The line feed of the format strings.\<close>

definition LF :: string where
  "LF = [CHR 0x0A]"

section \<open>The JSON decoder and encoder as the program uses them\<close>

text \<open>
  \<open>encoding/json\<close> is not part of the repository. Its reading of bytes as a JSON value
  (\<open>Decode\<close>) and its writing of an \<open>interface{}\<close> value (\<open>Encode\<close>) are parameters
  of the model.
\<close>

record encoding_json =
  Decode :: "string \<Rightarrow> error + jvalue"
  Encode :: "jvalue \<Rightarrow> error + string"

text \<open>
  How the decoder names the kind of a JSON value in a type error, and the error itself:
  \<open>json: cannot unmarshal number into Go value of type string\<close>.
\<close>

fun kind_name :: "jvalue \<Rightarrow> string" where
  "kind_name JNull = ''null''"
| "kind_name (JBool b) = ''bool''"
| "kind_name (JNumber i) = ''number''"
| "kind_name (JString t) = ''string''"
| "kind_name (JArray vs) = ''array''"
| "kind_name (JObject kvs) = ''object''"

definition UnmarshalTypeError :: "jvalue \<Rightarrow> string \<Rightarrow> error" where
  "UnmarshalTypeError v type = GoError (''json: cannot unmarshal '' @ kind_name v @ '' into Go value of type '' @ type)"

text \<open>An object's members stored into a map one after the other: a repeated key keeps its last value.\<close>

fun store_members :: "(string \<times> jvalue) list \<Rightarrow> (string \<rightharpoonup> jvalue) \<Rightarrow> (string \<rightharpoonup> jvalue)" where
  "store_members [] m = m"
| "store_members ((k, v) # kvs) m = store_members kvs (m(k \<mapsto> v))"

text \<open>
  \<open>json.Unmarshal(data, &m)\<close> for \<open>m\<close> of type \<open>map[string]interface{}\<close>, returning
  the error and the map afterwards. Bytes that are not JSON leave \<open>m\<close> as it was; JSON
  \<open>null\<close> sets \<open>m\<close> to nil; an object is stored into \<open>m\<close> (allocated first when nil);
  any other JSON value is a type error and leaves \<open>m\<close> as it was.
\<close>

definition Unmarshal_map :: "encoding_json \<Rightarrow> string \<Rightarrow> gomap \<Rightarrow> error option \<times> gomap" where
  "Unmarshal_map js data m =
     (case Decode js data of
        Inl e \<Rightarrow> (Some e, m)
      | Inr JNull \<Rightarrow> (None, None)
      | Inr (JObject kvs) \<Rightarrow>
          (None, Some (store_members kvs (case m of None \<Rightarrow> Map.empty | Some f \<Rightarrow> f)))
      | Inr v \<Rightarrow> (Some (UnmarshalTypeError v ''map[string]interface {}''), m))"

section \<open>The response and the Result\<close>

text \<open>
  What the program reads of a \<open>*resty.Response\<close>: \<open>StatusCode()\<close>, \<open>Status()\<close> and
  \<open>Body()\<close>. The pointer may be nil (\<open>None\<close>); a call on the nil pointer reads a
  field through it and panics.
\<close>

record Response =
  StatusCode :: int
  Status :: string
  Body :: string

definition resp_StatusCode :: "Response option \<Rightarrow> panic + int" where
  "resp_StatusCode p = (case p of None \<Rightarrow> Inl NilPointerDereference | Some r \<Rightarrow> Inr (StatusCode r))"

definition resp_Status :: "Response option \<Rightarrow> panic + string" where
  "resp_Status p = (case p of None \<Rightarrow> Inl NilPointerDereference | Some r \<Rightarrow> Inr (Status r))"

definition resp_Body :: "Response option \<Rightarrow> panic + string" where
  "resp_Body p = (case p of None \<Rightarrow> Inl NilPointerDereference | Some r \<Rightarrow> Inr (Body r))"

definition StatusOK :: int where
  "StatusOK = 200"

record resultImpl =
  err :: "error option"
  resp :: "Response option"
  values_map :: gomap

definition newResult :: "error option \<Rightarrow> Response option \<Rightarrow> resultImpl" where
  "newResult e r = \<lparr>err = e, resp = r, values_map = None\<rparr>"

definition Response_of :: "resultImpl \<Rightarrow> Response option" where
  "Response_of result = resp result"

text \<open>\<open>extractValues\<close> writes \<open>result.values\<close>; the model returns the Result afterwards.\<close>

definition extractValues :: "encoding_json \<Rightarrow> resultImpl \<Rightarrow> panic + resultImpl" where
  "extractValues js result =
     (if values_map result \<noteq> None then Inr result
      else if resp result = None then Inr result
      else
        (case resp_Body (resp result) of
           Inl p \<Rightarrow> Inl p
         | Inr b \<Rightarrow> Inr (result\<lparr>values_map := snd (Unmarshal_map js b (Some Map.empty))\<rparr>)))"

text \<open>\<open>&&\<close> evaluates its right operand only when the left one is true.\<close>

definition OK :: "resultImpl \<Rightarrow> panic + bool" where
  "OK result =
     (if err result = None then
        (case resp_StatusCode (resp result) of
           Inl p \<Rightarrow> Inl p
         | Inr c \<Rightarrow> Inr (c = StatusOK))
      else Inr False)"

definition Fail :: "resultImpl \<Rightarrow> panic + bool" where
  "Fail result = (case OK result of Inl p \<Rightarrow> Inl p | Inr b \<Rightarrow> Inr (\<not> b))"

definition Error :: "resultImpl \<Rightarrow> panic + error option" where
  "Error result =
     (case OK result of
        Inl p \<Rightarrow> Inl p
      | Inr ok \<Rightarrow>
          if ok then Inr None
          else if err result \<noteq> None then Inr (err result)
          else if resp result \<noteq> None then
            (case resp_Status (resp result) of
               Inl p \<Rightarrow> Inl p
             | Inr st \<Rightarrow>
                 (case resp_Body (resp result) of
                    Inl p \<Rightarrow> Inl p
                  | Inr b \<Rightarrow> Inr (Some (GoError (''status code('' @ st @ '') '' @ b)))))
          else Inr None)"

text \<open>
  \<open>Value(key, v)\<close>: \<open>v\<close> is the caller's target and \<open>unmarshal\<close> is
  \<open>json.Unmarshal(buff, v)\<close> at the target's type, giving the error and the target
  afterwards. The call returns the error, the target and the Result afterwards.
\<close>

definition Value ::
  "encoding_json \<Rightarrow> (string \<Rightarrow> 't \<Rightarrow> error option \<times> 't) \<Rightarrow> string \<Rightarrow> 't \<Rightarrow> resultImpl
     \<Rightarrow> panic + (error option \<times> 't \<times> resultImpl)" where
  "Value js unmarshal key v result =
     (case extractValues js result of
        Inl p \<Rightarrow> Inl p
      | Inr result' \<Rightarrow>
          (case map_index (values_map result') key of
             None \<Rightarrow>
               (case resp_Body (resp result') of
                  Inl p \<Rightarrow> Inl p
                | Inr b \<Rightarrow>
                    Inr (Some (GoError (''unknown return value '' @ key @ LF @ b)), v, result'))
           | Some data \<Rightarrow>
               (case Encode js data of
                  Inl e \<Rightarrow>
                    (case resp_Body (resp result') of
                       Inl p \<Rightarrow> Inl p
                     | Inr b \<Rightarrow>
                         Inr (Some (GoError (''unmarshal result('' @ key @ '') err '' @ error_text e @ LF @ b)),
                              v, result'))
                | Inr buff \<Rightarrow>
                    (case unmarshal buff v of
                       (Some e, v') \<Rightarrow>
                         Inr (Some (GoError (''unmarshal result('' @ key @ '') err '' @ error_text e @ LF @ buff)),
                              v', result')
                     | (None, v') \<Rightarrow> Inr (None, v', result')))))"

definition Values :: "resultImpl \<Rightarrow> gomap" where
  "Values result = values_map result"

section \<open>Requests and options\<close>

text \<open>
  Of an \<open>*http.Request\<close> the options of this package touch the header, a map from a
  field name to the list of its values. \<open>Header.Add\<close> appends a value to the list and
  \<open>Header.Get\<close> reads the first value (the empty string when there is none). The
  library canonicalises the field name first; \<open>Authorization\<close>, the only name the
  package uses, is its own canonical form.
\<close>

record http_Request =
  Header :: "string \<rightharpoonup> string list"

definition Header_Add :: "string \<Rightarrow> string \<Rightarrow> (string \<rightharpoonup> string list) \<Rightarrow> (string \<rightharpoonup> string list)" where
  "Header_Add key v h = h(key \<mapsto> (case h key of None \<Rightarrow> [] | Some vs \<Rightarrow> vs) @ [v])"

definition Header_Get :: "string \<Rightarrow> (string \<rightharpoonup> string list) \<Rightarrow> string" where
  "Header_Get key h = (case h key of None \<Rightarrow> [] | Some [] \<Rightarrow> [] | Some (v # _) \<Rightarrow> v)"

text \<open>
  An \<open>Option\<close> is a Go function of a \<open>*http.Request\<close>, and the pointer it is handed
  may be nil (\<open>None\<close>). Called with nil it has no request to change and either returns
  or panics (\<open>on_nil\<close>); called with a live request it panics or returns, leaving the
  request changed (\<open>on_request\<close>). \<open>call_option\<close> is the call \<open>option(request)\<close>:
  the panic, or the request behind the pointer afterwards.
\<close>

datatype Option = Func (on_nil: "panic option") (on_request: "http_Request \<Rightarrow> panic + http_Request")

definition call_option :: "Option \<Rightarrow> http_Request option \<Rightarrow> panic + http_Request option" where
  "call_option option request =
     (case request of
        None \<Rightarrow> (case on_nil option of Some p \<Rightarrow> Inl p | None \<Rightarrow> Inr None)
      | Some req \<Rightarrow> (case on_request option req of Inl p \<Rightarrow> Inl p | Inr req' \<Rightarrow> Inr (Some req')))"

datatype Auth = Auth (Handle: Option)

text \<open>
  \<open>WithAuth(auth)\<close> calls \<open>auth.Handle(request)\<close>; on a nil interface value that call
  panics whatever the request is.
\<close>

definition WithAuth :: "Auth option \<Rightarrow> Option" where
  "WithAuth auth =
     (case auth of
        None \<Rightarrow> Func (Some NilPointerDereference) (\<lambda>request. Inl NilPointerDereference)
      | Some a \<Rightarrow> Handle a)"

text \<open>
  \<open>WithJWToken(token)\<close> runs \<open>request.Header.Add(...)\<close>: it reads the header through
  the pointer, so the nil pointer panics, and on a live request it appends the value.
\<close>

definition WithJWToken :: "string \<Rightarrow> Option" where
  "WithJWToken token =
     Func (Some NilPointerDereference)
       (\<lambda>request. Inr (request\<lparr>Header := Header_Add ''Authorization'' (''Bearer '' @ token) (Header request)\<rparr>))"

text \<open>
  The loop \<open>for _, option := range options { option(r.RawRequest) }\<close>: a panic ends it,
  and otherwise the next option is called with the same pointer.
\<close>

fun apply_options :: "Option list \<Rightarrow> http_Request option \<Rightarrow> panic + http_Request option" where
  "apply_options [] raw = Inr raw"
| "apply_options (option # options) raw =
     (case call_option option raw of
        Inl p \<Rightarrow> Inl p
      | Inr raw' \<Rightarrow> apply_options options raw')"

section \<open>The client\<close>

text \<open>
  The resty request as the verbs build it: the body (\<open>SetBody\<close>), the query parameters
  (\<open>SetQueryParams\<close> sets each name to the one value) and the pointer \<open>RawRequest\<close>
  handed to the options. \<open>resty.R()\<close> gives a fresh request, with no body, no query
  parameters and a nil \<open>RawRequest\<close>: resty builds the raw request only when the request
  is executed.
\<close>

record 'req resty_Request =
  Body_req :: "'req option"
  QueryParam :: "string \<rightharpoonup> string list"
  RawRequest :: "http_Request option"

definition resty_R :: "'req resty_Request" where
  "resty_R = \<lparr>Body_req = None, QueryParam = Map.empty, RawRequest = None\<rparr>"

definition SetBody :: "'req \<Rightarrow> 'req resty_Request \<Rightarrow> 'req resty_Request" where
  "SetBody body r = r\<lparr>Body_req := Some body\<rparr>"

definition SetQueryParams :: "(string \<rightharpoonup> string) \<Rightarrow> 'req resty_Request \<Rightarrow> 'req resty_Request" where
  "SetQueryParams params r =
     r\<lparr>QueryParam := (\<lambda>k. case params k of None \<Rightarrow> QueryParam r k | Some v \<Rightarrow> Some [v])\<rparr>"

datatype verb = MethodPost | MethodGet | MethodDelete

record URL =
  Scheme :: string
  Opaque :: string
  Host :: string
  Path :: string
  RawPath :: string
  RawQuery :: string
  Fragment :: string

text \<open>
  What the verbs take from outside the repository: \<open>json.Marshal\<close> of the payload,
  \<open>fmt.Sprintf("%v", v)\<close>, the order in which \<open>range\<close> visits a map (Go leaves it
  open), \<open>url.Parse\<close>, \<open>URL.String\<close>, \<open>filepath.Clean\<close> and the transport behind
  \<open>Post\<close>, \<open>Get\<close> and \<open>Delete\<close>, which returns the response pointer and the error.
\<close>

record 'req platform =
  json :: encoding_json
  Marshal :: "'req \<Rightarrow> error + string"
  Sprint_v :: "jvalue \<Rightarrow> string"
  range_order :: "(string \<rightharpoonup> jvalue) \<Rightarrow> (string \<times> jvalue) list"
  url_Parse :: "string \<Rightarrow> error + URL"
  URL_String :: "URL \<Rightarrow> string"
  filepath_Clean :: "string \<Rightarrow> string"
  Execute :: "verb \<Rightarrow> 'req resty_Request \<Rightarrow> string \<Rightarrow> Response option \<times> error option"

text \<open>A transport invocation: the verb, the request handed over and the URL.\<close>

type_synonym 'req call = "verb \<times> 'req resty_Request \<times> string"

datatype rwmutex = RWMutex nat bool

record clientImpl =
  lock :: rwmutex
  url :: string
  auth :: "Auth option"

definition New :: "string \<Rightarrow> clientImpl" where
  "New u = \<lparr>lock = RWMutex 0 False, url = u, auth = None\<rparr>"

definition checkURL :: "'req platform \<Rightarrow> clientImpl \<Rightarrow> string \<Rightarrow> error + string" where
  "checkURL pf client s =
     (case url_Parse pf s of
        Inl e \<Rightarrow> Inl e
      | Inr u \<Rightarrow> Inr (URL_String pf (u\<lparr>Path := filepath_Clean pf (Path u)\<rparr>)))"

text \<open>\<open>for k, v := range params { r[k] = fmt.Sprintf("%v", v) }\<close>, over the entries in the order visited.\<close>

fun render_entries :: "(jvalue \<Rightarrow> string) \<Rightarrow> (string \<times> jvalue) list \<Rightarrow> (string \<rightharpoonup> string) \<Rightarrow> (string \<rightharpoonup> string)" where
  "render_entries f [] r = r"
| "render_entries f ((k, v) # kvs) r = render_entries f kvs (r(k \<mapsto> f v))"

definition range_entries :: "'req platform \<Rightarrow> gomap \<Rightarrow> (string \<times> jvalue) list" where
  "range_entries pf params = (case params of None \<Rightarrow> [] | Some m \<Rightarrow> range_order pf m)"

definition requestToMap :: "'req platform \<Rightarrow> clientImpl \<Rightarrow> 'req \<Rightarrow> error + (string \<rightharpoonup> string)" where
  "requestToMap pf client request =
     (case Marshal pf request of
        Inl e \<Rightarrow> Inl e
      | Inr buff \<Rightarrow>
          (case Unmarshal_map (json pf) buff None of
             (Some e, params) \<Rightarrow> Inl e
           | (None, params) \<Rightarrow>
               Inr (render_entries (Sprint_v pf) (range_entries pf params) Map.empty)))"

text \<open>
  Each verb panics in its option loop, or returns the Result and the transport
  invocations it made. The options run before the URL is checked.
\<close>

definition POST ::
  "'req platform \<Rightarrow> clientImpl \<Rightarrow> string \<Rightarrow> 'req \<Rightarrow> Option list
     \<Rightarrow> panic + (resultImpl \<times> 'req call list)" where
  "POST pf client path request options =
     (let r = SetBody request resty_R
      in case apply_options options (RawRequest r) of
           Inl p \<Rightarrow> Inl p
         | Inr raw \<Rightarrow>
             (case checkURL pf client (url client @ path) of
                Inl e \<Rightarrow> Inr (newResult (Some e) None, [])
              | Inr u \<Rightarrow>
                  (case Execute pf MethodPost (r\<lparr>RawRequest := raw\<rparr>) u of
                     (rsp, e) \<Rightarrow> Inr (newResult e rsp, [(MethodPost, r\<lparr>RawRequest := raw\<rparr>, u)]))))"

definition GET ::
  "'req platform \<Rightarrow> clientImpl \<Rightarrow> string \<Rightarrow> 'req \<Rightarrow> Option list
     \<Rightarrow> panic + (resultImpl \<times> 'req call list)" where
  "GET pf client path request options =
     (case requestToMap pf client request of
        Inl e \<Rightarrow> Inr (newResult (Some e) None, [])
      | Inr params \<Rightarrow>
          (let r = SetQueryParams params resty_R
           in case apply_options options (RawRequest r) of
                Inl p \<Rightarrow> Inl p
              | Inr raw \<Rightarrow>
                  (case checkURL pf client (url client @ path) of
                     Inl e \<Rightarrow> Inr (newResult (Some e) None, [])
                   | Inr u \<Rightarrow>
                       (case Execute pf MethodGet (r\<lparr>RawRequest := raw\<rparr>) u of
                          (rsp, e) \<Rightarrow> Inr (newResult e rsp, [(MethodGet, r\<lparr>RawRequest := raw\<rparr>, u)])))))"

definition DELETE ::
  "'req platform \<Rightarrow> clientImpl \<Rightarrow> string \<Rightarrow> 'req \<Rightarrow> Option list
     \<Rightarrow> panic + (resultImpl \<times> 'req call list)" where
  "DELETE pf client path request options =
     (case requestToMap pf client request of
        Inl e \<Rightarrow> Inr (newResult (Some e) None, [])
      | Inr params \<Rightarrow>
          (let r = SetQueryParams params resty_R
           in case apply_options options (RawRequest r) of
                Inl p \<Rightarrow> Inl p
              | Inr raw \<Rightarrow>
                  (case checkURL pf client (url client @ path) of
                     Inl e \<Rightarrow> Inr (newResult (Some e) None, [])
                   | Inr u \<Rightarrow>
                       (case Execute pf MethodDelete (r\<lparr>RawRequest := raw\<rparr>) u of
                          (rsp, e) \<Rightarrow> Inr (newResult e rsp, [(MethodDelete, r\<lparr>RawRequest := raw\<rparr>, u)])))))"

section \<open>The variant of \<open>src/client.go\<close>\<close>

text \<open>
  \<open>src/client.go\<close> holds a second variant of the same package. Its verbs run the same
  option loop, join the base URL and the path with a slash and hand the text to the
  transport as it is, and its \<open>GET\<close> and \<open>DELETE\<close> decode the payload's JSON straight
  into a \<open>map[string]string\<close>.

  \<open>json.Unmarshal(data, &m)\<close> for \<open>m\<close> of type \<open>map[string]string\<close>: a member that
  is a string is stored, a \<open>null\<close> member stores the empty string, and any other member
  stores the empty string and makes the call return a type error (the first one met).
\<close>

fun store_string_members ::
  "(string \<times> jvalue) list \<Rightarrow> error option \<times> (string \<rightharpoonup> string) \<Rightarrow> error option \<times> (string \<rightharpoonup> string)" where
  "store_string_members [] acc = acc"
| "store_string_members ((k, JString s) # kvs) (e, m) = store_string_members kvs (e, m(k \<mapsto> s))"
| "store_string_members ((k, JNull) # kvs) (e, m) = store_string_members kvs (e, m(k \<mapsto> []))"
| "store_string_members ((k, v) # kvs) (e, m) =
     store_string_members kvs
       (case e of
          None \<Rightarrow> Some (UnmarshalTypeError v ''string'')
        | Some e' \<Rightarrow> Some e',
        m(k \<mapsto> []))"

definition Unmarshal_string_map ::
  "encoding_json \<Rightarrow> string \<Rightarrow> (string \<rightharpoonup> string) option \<Rightarrow> error option \<times> (string \<rightharpoonup> string) option" where
  "Unmarshal_string_map js data m =
     (case Decode js data of
        Inl e \<Rightarrow> (Some e, m)
      | Inr JNull \<Rightarrow> (None, None)
      | Inr (JObject kvs) \<Rightarrow>
          (case store_string_members kvs (None, case m of None \<Rightarrow> Map.empty | Some f \<Rightarrow> f) of
             (e, m') \<Rightarrow> (e, Some m'))
      | Inr v \<Rightarrow> (Some (UnmarshalTypeError v ''map[string]string''), m))"

text \<open>\<open>SetQueryParams\<close> ranges over its argument; a nil map has no entries.\<close>

definition SetQueryParams_opt :: "(string \<rightharpoonup> string) option \<Rightarrow> 'req resty_Request \<Rightarrow> 'req resty_Request" where
  "SetQueryParams_opt params r = SetQueryParams (case params of None \<Rightarrow> Map.empty | Some m \<Rightarrow> m) r"

definition POST_client_go ::
  "'req platform \<Rightarrow> clientImpl \<Rightarrow> string \<Rightarrow> 'req \<Rightarrow> Option list
     \<Rightarrow> panic + (resultImpl \<times> 'req call list)" where
  "POST_client_go pf client path request options =
     (let r = SetBody request resty_R
      in case apply_options options (RawRequest r) of
           Inl p \<Rightarrow> Inl p
         | Inr raw \<Rightarrow>
             (case Execute pf MethodPost (r\<lparr>RawRequest := raw\<rparr>) (url client @ ''/'' @ path) of
                (rsp, e) \<Rightarrow>
                  Inr (newResult e rsp, [(MethodPost, r\<lparr>RawRequest := raw\<rparr>, url client @ ''/'' @ path)])))"

definition GET_client_go ::
  "'req platform \<Rightarrow> clientImpl \<Rightarrow> string \<Rightarrow> 'req \<Rightarrow> Option list
     \<Rightarrow> panic + (resultImpl \<times> 'req call list)" where
  "GET_client_go pf client path request options =
     (case Marshal pf request of
        Inl e \<Rightarrow> Inr (newResult (Some e) None, [])
      | Inr buff \<Rightarrow>
          (case Unmarshal_string_map (json pf) buff None of
             (Some e, params) \<Rightarrow> Inr (newResult (Some e) None, [])
           | (None, params) \<Rightarrow>
               (let r = SetQueryParams_opt params resty_R
                in case apply_options options (RawRequest r) of
                     Inl p \<Rightarrow> Inl p
                   | Inr raw \<Rightarrow>
                       (case Execute pf MethodGet (r\<lparr>RawRequest := raw\<rparr>) (url client @ ''/'' @ path) of
                          (rsp, e) \<Rightarrow>
                            Inr (newResult e rsp,
                                 [(MethodGet, r\<lparr>RawRequest := raw\<rparr>, url client @ ''/'' @ path)])))))"

definition DELETE_client_go ::
  "'req platform \<Rightarrow> clientImpl \<Rightarrow> string \<Rightarrow> 'req \<Rightarrow> Option list
     \<Rightarrow> panic + (resultImpl \<times> 'req call list)" where
  "DELETE_client_go pf client path request options =
     (case Marshal pf request of
        Inl e \<Rightarrow> Inr (newResult (Some e) None, [])
      | Inr buff \<Rightarrow>
          (case Unmarshal_string_map (json pf) buff None of
             (Some e, params) \<Rightarrow> Inr (newResult (Some e) None, [])
           | (None, params) \<Rightarrow>
               (let r = SetQueryParams_opt params resty_R
                in case apply_options options (RawRequest r) of
                     Inl p \<Rightarrow> Inl p
                   | Inr raw \<Rightarrow>
                       (case Execute pf MethodDelete (r\<lparr>RawRequest := raw\<rparr>) (url client @ ''/'' @ path) of
                          (rsp, e) \<Rightarrow>
                            Inr (newResult e rsp,
                                 [(MethodDelete, r\<lparr>RawRequest := raw\<rparr>, url client @ ''/'' @ path)])))))"

section \<open>A small platform for the examples\<close>

text \<open>
  A stand-in for the libraries, on which the examples are run. It reads and writes compact
  JSON (no white space, no escapes inside strings, integral numbers, members written in
  the order given), parses URLs of the form \<open>scheme://host/path\<close>, cleans a path
  lexically as \<open>filepath.Clean\<close> does on Unix, and answers every request with one fixed
  response. It reads less than the libraries do: what it cannot read it refuses.
\<close>

definition digit_char :: "nat \<Rightarrow> char" where
  "digit_char d = ''0123456789'' ! d"

fun show_nat :: "nat \<Rightarrow> string" where
  "show_nat n = (if n < 10 then [digit_char n] else show_nat (n div 10) @ [digit_char (n mod 10)])"

definition show_int :: "int \<Rightarrow> string" where
  "show_int i = (if i < 0 then CHR ''-'' # show_nat (nat (- i)) else show_nat (nat i))"

definition is_digit :: "char \<Rightarrow> bool" where
  "is_digit c = (c \<in> set ''0123456789'')"

text \<open>The value of a digit is its place in the row of digits.\<close>

definition digit_val :: "char \<Rightarrow> nat" where
  "digit_val c = length (takeWhile (\<lambda>d. d \<noteq> c) ''0123456789'')"

definition read_nat :: "string \<Rightarrow> nat" where
  "read_nat ds = foldl (\<lambda>a c. 10 * a + digit_val c) 0 ds"

definition plain_digits :: "string \<Rightarrow> bool" where
  "plain_digits ds = (ds = ''0'' \<or> (ds \<noteq> [] \<and> hd ds \<noteq> CHR ''0''))"

fun join :: "string \<Rightarrow> string list \<Rightarrow> string" where
  "join sep [] = []"
| "join sep [x] = x"
| "join sep (x # y # ys) = x @ sep @ join sep (y # ys)"

text \<open>The text of a string up to its closing quote, and what follows.\<close>

fun read_string :: "string \<Rightarrow> (string \<times> string) option" where
  "read_string [] = None"
| "read_string (c # cs) =
     (if c = CHR 0x22 then Some ([], cs)
      else if c = CHR 0x5C then None
      else (case read_string cs of None \<Rightarrow> None | Some (t, rest) \<Rightarrow> Some (c # t, rest)))"

fun read_value :: "nat \<Rightarrow> string \<Rightarrow> (jvalue \<times> string) option"
  and read_members :: "nat \<Rightarrow> string \<Rightarrow> ((string \<times> jvalue) list \<times> string) option"
  and read_elements :: "nat \<Rightarrow> string \<Rightarrow> (jvalue list \<times> string) option" where
  "read_value 0 s = None"
| "read_value (Suc n) s =
     (if take 4 s = ''null'' then Some (JNull, drop 4 s)
      else if take 4 s = ''true'' then Some (JBool True, drop 4 s)
      else if take 5 s = ''false'' then Some (JBool False, drop 5 s)
      else if take 2 s = ''{}'' then Some (JObject [], drop 2 s)
      else if take 2 s = ''[]'' then Some (JArray [], drop 2 s)
      else
        (case s of
           [] \<Rightarrow> None
         | c # cs \<Rightarrow>
             if c = CHR 0x22 then
               (case read_string cs of None \<Rightarrow> None | Some (t, rest) \<Rightarrow> Some (JString t, rest))
             else if c = CHR ''{'' then
               (case read_members n cs of None \<Rightarrow> None | Some (kvs, rest) \<Rightarrow> Some (JObject kvs, rest))
             else if c = CHR ''['' then
               (case read_elements n cs of None \<Rightarrow> None | Some (vs, rest) \<Rightarrow> Some (JArray vs, rest))
             else if c = CHR ''-'' \<and> plain_digits (takeWhile is_digit cs) then
               Some (JNumber (- int (read_nat (takeWhile is_digit cs))), dropWhile is_digit cs)
             else if plain_digits (takeWhile is_digit s) then
               Some (JNumber (int (read_nat (takeWhile is_digit s))), dropWhile is_digit s)
             else None))"
| "read_members 0 s = None"
| "read_members (Suc n) s =
     (case s of
        [] \<Rightarrow> None
      | c # cs \<Rightarrow>
          if c \<noteq> CHR 0x22 then None
          else
            (case read_string cs of
               None \<Rightarrow> None
             | Some (k, rest) \<Rightarrow>
                 (case rest of
                    [] \<Rightarrow> None
                  | c1 # r1 \<Rightarrow>
                      if c1 \<noteq> CHR '':'' then None
                      else
                        (case read_value n r1 of
                           None \<Rightarrow> None
                         | Some (v, rest2) \<Rightarrow>
                             (case rest2 of
                                [] \<Rightarrow> None
                              | c2 # r2 \<Rightarrow>
                                  if c2 = CHR ''}'' then Some ([(k, v)], r2)
                                  else if c2 = CHR '','' then
                                    (case read_members n r2 of
                                       None \<Rightarrow> None
                                     | Some (kvs, r3) \<Rightarrow> Some ((k, v) # kvs, r3))
                                  else None)))))"
| "read_elements 0 s = None"
| "read_elements (Suc n) s =
     (case read_value n s of
        None \<Rightarrow> None
      | Some (v, rest) \<Rightarrow>
          (case rest of
             [] \<Rightarrow> None
           | c # r \<Rightarrow>
               if c = CHR '']'' then Some ([v], r)
               else if c = CHR '','' then
                 (case read_elements n r of None \<Rightarrow> None | Some (vs, r') \<Rightarrow> Some (v # vs, r'))
               else None))"

definition ref_Decode :: "string \<Rightarrow> error + jvalue" where
  "ref_Decode s =
     (case read_value (Suc (length s)) s of
        Some (v, []) \<Rightarrow> Inr v
      | _ \<Rightarrow> Inl (GoError ''invalid character in JSON input''))"

fun write_value :: "jvalue \<Rightarrow> string" where
  "write_value JNull = ''null''"
| "write_value (JBool b) = (if b then ''true'' else ''false'')"
| "write_value (JNumber i) = show_int i"
| "write_value (JString t) = CHR 0x22 # t @ [CHR 0x22]"
| "write_value (JArray vs) = ''['' @ join '','' (map write_value vs) @ '']''"
| "write_value (JObject kvs) =
     ''{'' @ join '','' (map (\<lambda>kv. CHR 0x22 # fst kv @ [CHR 0x22] @ '':'' @ write_value (snd kv)) kvs) @ ''}''"

text \<open>\<open>%v\<close> of a decoded value: text as it is, \<open><nil>\<close>, and slices and maps in brackets.\<close>

fun show_v :: "jvalue \<Rightarrow> string" where
  "show_v JNull = ''<nil>''"
| "show_v (JBool b) = (if b then ''true'' else ''false'')"
| "show_v (JNumber i) = show_int i"
| "show_v (JString t) = t"
| "show_v (JArray vs) = ''['' @ join '' '' (map show_v vs) @ '']''"
| "show_v (JObject kvs) = ''map['' @ join '' '' (map (\<lambda>kv. fst kv @ '':'' @ show_v (snd kv)) kvs) @ '']''"

definition ref_json :: encoding_json where
  "ref_json = \<lparr>Decode = ref_Decode, Encode = (\<lambda>v. Inr (write_value v))\<rparr>"

text \<open>Two targets: a struct with an integer field \<open>id\<close>, and a string.\<close>

record id_target =
  target_id :: int

definition unmarshal_id_target :: "string \<Rightarrow> id_target \<Rightarrow> error option \<times> id_target" where
  "unmarshal_id_target buff v =
     (case ref_Decode buff of
        Inl e \<Rightarrow> (Some e, v)
      | Inr JNull \<Rightarrow> (None, v)
      | Inr (JObject kvs) \<Rightarrow>
          (case map_of (rev kvs) ''id'' of
             None \<Rightarrow> (None, v)
           | Some JNull \<Rightarrow> (None, v)
           | Some (JNumber i) \<Rightarrow> (None, v\<lparr>target_id := i\<rparr>)
           | Some w \<Rightarrow> (Some (UnmarshalTypeError w ''int''), v))
      | Inr w \<Rightarrow> (Some (UnmarshalTypeError w ''struct''), v))"

definition unmarshal_string_target :: "string \<Rightarrow> string \<Rightarrow> error option \<times> string" where
  "unmarshal_string_target buff v =
     (case ref_Decode buff of
        Inl e \<Rightarrow> (Some e, v)
      | Inr JNull \<Rightarrow> (None, v)
      | Inr (JString t) \<Rightarrow> (None, t)
      | Inr w \<Rightarrow> (Some (UnmarshalTypeError w ''string''), v))"

text \<open>A payload the encoder writes, or one it rejects (a channel, say).\<close>

datatype payload = Tree jvalue | Unsupported

definition ref_Marshal :: "payload \<Rightarrow> error + string" where
  "ref_Marshal p =
     (case p of
        Tree v \<Rightarrow> Inr (write_value v)
      | Unsupported \<Rightarrow> Inl (GoError ''json: unsupported type''))"

text \<open>The entries of a map, visited in the order of a given list of keys.\<close>

definition range_by :: "string list \<Rightarrow> (string \<rightharpoonup> jvalue) \<Rightarrow> (string \<times> jvalue) list" where
  "range_by keys m = concat (map (\<lambda>k. case m k of None \<Rightarrow> [] | Some v \<Rightarrow> [(k, v)]) keys)"

definition is_alpha :: "char \<Rightarrow> bool" where
  "is_alpha c = (c \<in> set ''abcdefghijklmnopqrstuvwxyzABCDEFGHIJKLMNOPQRSTUVWXYZ'')"

definition url_char :: "char \<Rightarrow> bool" where
  "url_char c = (is_alpha c \<or> is_digit c \<or> c \<in> set ''-._~/:'')"

definition ref_Parse :: "string \<Rightarrow> error + URL" where
  "ref_Parse s =
     (let scheme = takeWhile is_alpha s; rest = dropWhile is_alpha s
      in if take 1 s = '':'' then Inl (GoError (''parse '' @ s @ '': missing protocol scheme''))
         else if \<not> list_all url_char s then Inl (GoError (''parse '' @ s @ '': not read by this platform''))
         else if scheme \<noteq> [] \<and> take 3 rest = ''://'' then
           Inr \<lparr>Scheme = scheme, Opaque = [], Host = takeWhile (\<lambda>c. c \<noteq> CHR ''/'') (drop 3 rest),
                Path = dropWhile (\<lambda>c. c \<noteq> CHR ''/'') (drop 3 rest), RawPath = [], RawQuery = [],
                Fragment = []\<rparr>
         else if list_all (\<lambda>c. c \<noteq> CHR '':'') s then
           Inr \<lparr>Scheme = [], Opaque = [], Host = [], Path = s, RawPath = [], RawQuery = [], Fragment = []\<rparr>
         else Inl (GoError (''parse '' @ s @ '': not read by this platform'')))"

definition ref_String :: "URL \<Rightarrow> string" where
  "ref_String u =
     (if Scheme u = [] then [] else Scheme u @ '':'') @
     (if Opaque u \<noteq> [] then Opaque u
      else
        (if (Scheme u \<noteq> [] \<or> Host u \<noteq> []) \<and> (Host u \<noteq> [] \<or> Path u \<noteq> []) then ''//'' @ Host u else []) @
        (if Path u \<noteq> [] \<and> take 1 (Path u) \<noteq> ''/'' \<and> Host u \<noteq> [] then ''/'' else []) @
        Path u) @
     (if RawQuery u = [] then [] else ''?'' @ RawQuery u) @
     (if Fragment u = [] then [] else ''#'' @ Fragment u)"

fun split_slash :: "string \<Rightarrow> string list" where
  "split_slash [] = [[]]"
| "split_slash (c # cs) =
     (if c = CHR ''/'' then [] # split_slash cs
      else (case split_slash cs of [] \<Rightarrow> [[c]] | x # xs \<Rightarrow> (c # x) # xs))"

text \<open>One path element against the elements kept so far (the last one first).\<close>

definition clean_step :: "bool \<Rightarrow> string list \<Rightarrow> string \<Rightarrow> string list" where
  "clean_step rooted kept seg =
     (if seg = [] \<or> seg = ''.'' then kept
      else if seg = ''..'' then
        (case kept of
           [] \<Rightarrow> (if rooted then [] else [''..''])
         | seg0 # below \<Rightarrow> if seg0 = ''..'' then ''..'' # kept else below)
      else seg # kept)"

definition ref_Clean :: "string \<Rightarrow> string" where
  "ref_Clean p =
     (if p = [] then ''.''
      else
        (let rooted = (take 1 p = ''/'');
             body = join ''/'' (rev (foldl (clean_step rooted) [] (split_slash p)))
         in if rooted then CHR ''/'' # body else if body = [] then ''.'' else body))"

definition ref_platform :: "string list \<Rightarrow> Response option \<Rightarrow> error option \<Rightarrow> payload platform" where
  "ref_platform keys rsp e =
     \<lparr>json = ref_json, Marshal = ref_Marshal, Sprint_v = show_v, range_order = range_by keys,
      url_Parse = ref_Parse, URL_String = ref_String, filepath_Clean = ref_Clean,
      Execute = (\<lambda>m r u. (rsp, e))\<rparr>"

section \<open>Notions used in the statements\<close>

text \<open>
  The URLs and the raw requests of a list of transport invocations, and the URLs a verb
  call sent to when it returned.
\<close>

definition sent_urls :: "'req call list \<Rightarrow> string list" where
  "sent_urls calls = map (\<lambda>c. snd (snd c)) calls"

definition sent_raw_requests :: "'req call list \<Rightarrow> http_Request option list" where
  "sent_raw_requests calls = map (\<lambda>c. RawRequest (fst (snd c))) calls"

definition urls_sent :: "panic + (resultImpl \<times> 'req call list) \<Rightarrow> panic + string list" where
  "urls_sent outcome = (case outcome of Inl p \<Rightarrow> Inl p | Inr out \<Rightarrow> Inr (sent_urls (snd out)))"

text \<open>What Go promises of \<open>range\<close> over a map: every entry is visited, once.\<close>

definition visits_all :: "((string \<rightharpoonup> jvalue) \<Rightarrow> (string \<times> jvalue) list) \<Rightarrow> (string \<rightharpoonup> jvalue) \<Rightarrow> bool" where
  "visits_all order m = (distinct (map fst (order m)) \<and> map_of (order m) = m)"

text \<open>The members a \<open>map[string]string\<close> takes without a type error: strings and \<open>null\<close>.\<close>

fun string_or_null :: "jvalue \<Rightarrow> bool" where
  "string_or_null (JString t) = True"
| "string_or_null JNull = True"
| "string_or_null v = False"

section \<open>Properties of the Result\<close>

lemma OK_cases:
  "OK result =
     (case err result of
        Some e \<Rightarrow> Inr False
      | None \<Rightarrow> (case resp result of None \<Rightarrow> Inl NilPointerDereference
                 | Some r \<Rightarrow> Inr (StatusCode r = 200)))"
  by (simp add: OK_def resp_StatusCode_def StatusOK_def split: option.splits)

lemma Error_cases:
  "Error result =
     (case err result of
        Some e \<Rightarrow> Inr (Some e)
      | None \<Rightarrow>
          (case resp result of
             None \<Rightarrow> Inl NilPointerDereference
           | Some r \<Rightarrow>
               if StatusCode r = 200 then Inr None
               else Inr (Some (GoError (''status code('' @ Status r @ '') '' @ Body r)))))"
  by (simp add: Error_def OK_cases resp_Status_def resp_Body_def split: option.splits)

text \<open>
  C2. \<open>OK()\<close> returns true exactly when the stored error is nil and a response is present
  whose status code is 200; with a response of any other status (201, say) or with a
  stored error it returns false; \<open>Fail()\<close> is the negation of \<open>OK()\<close>, and returns
  whenever \<open>OK()\<close> does.
\<close>

theorem OK_true_iff_no_error_and_status_200:
  "(OK result = Inr True \<longleftrightarrow> err result = None \<and> (\<exists>r. resp result = Some r \<and> StatusCode r = 200))
   \<and> (\<forall>r. resp result = Some r \<longrightarrow> StatusCode r \<noteq> 200 \<longrightarrow> OK result = Inr False)
   \<and> (\<forall>e. err result = Some e \<longrightarrow> OK result = Inr False)
   \<and> Fail result = (case OK result of Inl p \<Rightarrow> Inl p | Inr b \<Rightarrow> Inr (\<not> b))
   \<and> (\<forall>b. Fail result = Inr b \<longleftrightarrow> OK result = Inr (\<not> b))"
  by (auto simp: Fail_def OK_cases split: option.splits sum.splits)

theorem OK_status_201_witness:
  "OK (newResult None (Some \<lparr>StatusCode = 201, Status = ''201 Created'', Body = ''{}''\<rparr>)) = Inr False
   \<and> Fail (newResult None (Some \<lparr>StatusCode = 201, Status = ''201 Created'', Body = ''{}''\<rparr>)) = Inr True
   \<and> OK (newResult None (Some \<lparr>StatusCode = 200, Status = ''200 OK'', Body = ''{}''\<rparr>)) = Inr True
   \<and> Fail (newResult None (Some \<lparr>StatusCode = 200, Status = ''200 OK'', Body = ''{}''\<rparr>)) = Inr False"
  using OK_true_iff_no_error_and_status_200
          [of "newResult None (Some \<lparr>StatusCode = 201, Status = ''201 Created'', Body = ''{}''\<rparr>)"]
        OK_true_iff_no_error_and_status_200
          [of "newResult None (Some \<lparr>StatusCode = 200, Status = ''200 OK'', Body = ''{}''\<rparr>)"]
  by (simp add: newResult_def)

text \<open>
  What \<open>Error()\<close> does where it returns: nil when \<open>OK()\<close> is true, the stored error when
  there is one, and otherwise the status line and the body of the response in one message.
\<close>

lemma Error_returns:
  "(OK result = Inr True \<longrightarrow> Error result = Inr None)
   \<and> (\<forall>e. err result = Some e \<longrightarrow> Error result = Inr (Some e))
   \<and> (\<forall>r. err result = None \<longrightarrow> resp result = Some r \<longrightarrow> StatusCode r \<noteq> 200 \<longrightarrow>
         Error result = Inr (Some (GoError (''status code('' @ Status r @ '') '' @ Body r))))"
  by (auto simp: Error_cases OK_cases split: option.splits)

lemma Error_status_400_example:
  \<open>Error (newResult None (Some \<lparr>StatusCode = 400, Status = ''400 Bad Request'',
             Body = ''{"code":1,"msg":"bad","data":{"x":1}}''\<rparr>))
   = Inr (Some (GoError ''status code(400 Bad Request) {"code":1,"msg":"bad","data":{"x":1}}''))\<close>
  by (simp add: Error_cases newResult_def)

text \<open>
  C9. The last case of \<open>Error()\<close>, a Result with neither an error nor a response, is
  written to return nil. It is never reached: \<open>Error()\<close> calls \<open>OK()\<close> first, which
  reads the status code through the nil response and panics.
\<close>

theorem Error_without_error_and_response_panics:
  "Error (newResult None None) = Inl NilPointerDereference
   \<and> OK (newResult None None) = Inl NilPointerDereference"
  by (simp add: Error_cases OK_cases newResult_def)

text \<open>
  C7. On a Result without a response, \<open>extractValues\<close> returns early and leaves the
  mapping nil, the key is not found, and the message of the error to return reads the body
  through the nil response: \<open>Value\<close> panics instead of returning an error.
\<close>

theorem Value_without_response_panics:
  "Value js unmarshal key v (newResult e None) = Inl NilPointerDereference"
  by (simp add: Value_def extractValues_def newResult_def map_index_def resp_Body_def)

section \<open>Lazy extraction\<close>

lemma store_members_append: "store_members kvs m = m ++ map_of (rev kvs)"
  by (induction kvs arbitrary: m) (auto simp: map_add_def fun_eq_iff split: option.splits)

lemma store_members_dom: "dom (store_members kvs m) = dom m \<union> fst ` set kvs"
  by (simp add: store_members_append dom_map_of_conv_image_fst Un_commute)

lemma store_members_absent: "key \<notin> fst ` set kvs \<Longrightarrow> store_members kvs m key = m key"
  by (induction kvs arbitrary: m) auto

lemma extractValues_cached: "values_map result \<noteq> None \<Longrightarrow> extractValues js result = Inr result"
  by (simp add: extractValues_def)

lemma extractValues_first:
  "values_map result = None \<Longrightarrow> resp result = Some r \<Longrightarrow>
   extractValues js result =
     Inr (result\<lparr>values_map :=
            (case Decode js (Body r) of
               Inl e \<Rightarrow> Some Map.empty
             | Inr JNull \<Rightarrow> None
             | Inr (JObject kvs) \<Rightarrow> Some (store_members kvs Map.empty)
             | Inr _ \<Rightarrow> Some Map.empty)\<rparr>)"
  by (simp add: extractValues_def resp_Body_def Unmarshal_map_def split: sum.splits jvalue.splits)

lemma Value_after_extraction:
  "extractValues js result = Inr result' \<Longrightarrow> resp result' = Some r \<Longrightarrow>
   Value js um key v result =
     (case map_index (values_map result') key of
        None \<Rightarrow> Inr (Some (GoError (''unknown return value '' @ key @ LF @ Body r)), v, result')
      | Some d \<Rightarrow>
          (case Encode js d of
             Inl e \<Rightarrow> Inr (Some (GoError (''unmarshal result('' @ key @ '') err '' @ error_text e @ LF @ Body r)), v, result')
           | Inr buff \<Rightarrow>
               (case um buff v of
                  (Some e, v') \<Rightarrow> Inr (Some (GoError (''unmarshal result('' @ key @ '') err '' @ error_text e @ LF @ buff)), v', result')
                | (None, v') \<Rightarrow> Inr (None, v', result'))))"
  by (simp add: Value_def resp_Body_def split: option.splits sum.splits prod.splits)

text \<open>The examples' decoder, encoder and targets on the bodies used below.\<close>

lemma decode_result_id_42:
  \<open>Decode ref_json ''{"result":{"id":42}}'' = Inr (JObject [(''result'', JObject [(''id'', JNumber 42)])])\<close>
  by (simp add: ref_json_def ref_Decode_def is_digit_def plain_digits_def read_nat_def digit_val_def)

lemma encode_id_42: \<open>Encode ref_json (JObject [(''id'', JNumber 42)]) = Inr ''{"id":42}''\<close>
  by (simp add: ref_json_def show_int_def digit_char_def)

lemma unmarshal_id_42:
  \<open>unmarshal_id_target ''{"id":42}'' \<lparr>target_id = 0\<rparr> = (None, \<lparr>target_id = 42\<rparr>)\<close>
  by (simp add: unmarshal_id_target_def ref_Decode_def is_digit_def plain_digits_def read_nat_def digit_val_def)

lemma unmarshal_string_object:
  \<open>unmarshal_string_target ''{"id":42}'' [] =
     (Some (GoError ''json: cannot unmarshal object into Go value of type string''), [])\<close>
  by (simp add: unmarshal_string_target_def ref_Decode_def is_digit_def plain_digits_def read_nat_def
        digit_val_def UnmarshalTypeError_def)

text \<open>
  C8 (as amended). \<open>Values()\<close> never triggers extraction and returns the mapping as it
  is. The mapping is nil on every Result as built, whether or not a response exists, and
  without a response extraction leaves it nil. After a \<open>Value\<close> call on a Result with a
  response the mapping is empty but not nil when the body is not JSON or is a JSON value
  other than an object or \<open>null\<close>, holds the members when the body is an object, and is
  nil when the body is \<open>null\<close>.
\<close>

theorem Values_returns_map_as_is:
  "Values result = values_map result
   \<and> Values (newResult e rsp) = None
   \<and> extractValues js (newResult e None) = Inr (newResult e None)
   \<and> (\<forall>r. values_map result = None \<longrightarrow> resp result = Some r \<longrightarrow>
         (\<exists>e' v'. Value js um key v result =
            Inr (e', v', result\<lparr>values_map :=
                   (case Decode js (Body r) of
                      Inl e \<Rightarrow> Some Map.empty
                    | Inr JNull \<Rightarrow> None
                    | Inr (JObject kvs) \<Rightarrow> Some (store_members kvs Map.empty)
                    | Inr _ \<Rightarrow> Some Map.empty)\<rparr>)))"
proof -
  have a: "Values result = values_map result" by (simp add: Values_def)
  have b: "Values (newResult e rsp) = None" by (simp add: Values_def newResult_def)
  have c: "extractValues js (newResult e None) = Inr (newResult e None)"
    by (simp add: extractValues_def newResult_def)
  have d: "\<exists>e' v'. Value js um key v result =
            Inr (e', v', result\<lparr>values_map :=
                   (case Decode js (Body r) of
                      Inl e \<Rightarrow> Some Map.empty
                    | Inr JNull \<Rightarrow> None
                    | Inr (JObject kvs) \<Rightarrow> Some (store_members kvs Map.empty)
                    | Inr _ \<Rightarrow> Some Map.empty)\<rparr>)"
    if h: "values_map result = None" "resp result = Some r" for r
  proof -
    let ?res = "result\<lparr>values_map :=
                   (case Decode js (Body r) of
                      Inl e \<Rightarrow> Some Map.empty
                    | Inr JNull \<Rightarrow> None
                    | Inr (JObject kvs) \<Rightarrow> Some (store_members kvs Map.empty)
                    | Inr _ \<Rightarrow> Some Map.empty)\<rparr>"
    have ex: "extractValues js result = Inr ?res" using h by (rule extractValues_first)
    have rs: "resp ?res = Some r" using h by simp
    show ?thesis
      unfolding Value_after_extraction [OF ex rs]
      by (auto split: option.splits sum.splits prod.splits)
  qed
  from a b c d show ?thesis by blast
qed


theorem Values_after_Value_witness:
  "Values (newResult None (Some \<lparr>StatusCode = 200, Status = ''200 OK'', Body = ''[1,2]''\<rparr>)) = None
   \<and> map_sum id (\<lambda>out. Values (snd (snd out)))
        (Value ref_json unmarshal_string_target ''x'' []
           (newResult None (Some \<lparr>StatusCode = 200, Status = ''200 OK'', Body = ''[1,2]''\<rparr>)))
       = Inr (Some Map.empty)
   \<and> map_sum id (\<lambda>out. Values (snd (snd out)))
        (Value ref_json unmarshal_string_target ''x'' []
           (newResult None (Some \<lparr>StatusCode = 200, Status = ''200 OK'', Body = ''null''\<rparr>)))
       = Inr None"
proof -
  have d1: "Decode ref_json ''[1,2]'' = Inr (JArray [JNumber 1, JNumber 2])"
    by (simp add: ref_json_def ref_Decode_def is_digit_def plain_digits_def read_nat_def digit_val_def)
  have d2: "Decode ref_json ''null'' = Inr JNull"
    by (simp add: ref_json_def ref_Decode_def)
  show ?thesis
    using Values_returns_map_as_is
            [of "newResult None (Some \<lparr>StatusCode = 200, Status = ''200 OK'', Body = ''[1,2]''\<rparr>)"
                None "Some \<lparr>StatusCode = 200, Status = ''200 OK'', Body = ''[1,2]''\<rparr>"
                ref_json unmarshal_string_target "''x''" "[]"]
          Values_returns_map_as_is
            [of "newResult None (Some \<lparr>StatusCode = 200, Status = ''200 OK'', Body = ''null''\<rparr>)"
                None "Some \<lparr>StatusCode = 200, Status = ''200 OK'', Body = ''null''\<rparr>"
                ref_json unmarshal_string_target "''x''" "[]"]
    by (auto simp: d1 d2 newResult_def Values_def)
qed

theorem Values_nil_with_response_counterexample:
  "Values (newResult None (Some \<lparr>StatusCode = 200, Status = ''200 OK'', Body = ''{}''\<rparr>)) = None
   \<and> Response_of (newResult None (Some \<lparr>StatusCode = 200, Status = ''200 OK'', Body = ''{}''\<rparr>))
       = Some \<lparr>StatusCode = 200, Status = ''200 OK'', Body = ''{}''\<rparr>"
  by (simp add: Values_def Response_of_def newResult_def)

text \<open>
  C1 (as amended). On a Result with a response whose body is a JSON object, the first
  \<open>Value\<close> call extracts the members. For a key of the object it writes the member's
  value as JSON and reads it into the target: the error is nil when that read succeeds,
  and an "unmarshal result" error naming the fragment when it fails. For a key that is
  not in the object it returns the "unknown return value" error with the body. The
  mapping is kept: a later extraction changes nothing, whatever the decoder would read,
  and a second \<open>Value\<close> call returns what the first did.
\<close>

theorem Value_on_object_body:
  assumes "resp result = Some r" and "values_map result = None"
    and "Decode js (Body r) = Inr (JObject kvs)"
  shows "(\<forall>d buff v'. store_members kvs Map.empty key = Some d \<longrightarrow> Encode js d = Inr buff \<longrightarrow>
            um buff v = (None, v') \<longrightarrow>
            Value js um key v result =
              Inr (None, v', result\<lparr>values_map := Some (store_members kvs Map.empty)\<rparr>))
       \<and> (\<forall>d buff e v'. store_members kvs Map.empty key = Some d \<longrightarrow> Encode js d = Inr buff \<longrightarrow>
            um buff v = (Some e, v') \<longrightarrow>
            Value js um key v result =
              Inr (Some (GoError (''unmarshal result('' @ key @ '') err '' @ error_text e @ LF @ buff)),
                   v', result\<lparr>values_map := Some (store_members kvs Map.empty)\<rparr>))
       \<and> (key \<notin> fst ` set kvs \<longrightarrow>
            Value js um key v result =
              Inr (Some (GoError (''unknown return value '' @ key @ LF @ Body r)),
                   v, result\<lparr>values_map := Some (store_members kvs Map.empty)\<rparr>))
       \<and> (key \<in> fst ` set kvs \<longrightarrow> (\<exists>d. store_members kvs Map.empty key = Some d))
       \<and> (\<forall>js'. extractValues js' (result\<lparr>values_map := Some (store_members kvs Map.empty)\<rparr>)
                  = Inr (result\<lparr>values_map := Some (store_members kvs Map.empty)\<rparr>))
       \<and> Value js um key v (result\<lparr>values_map := Some (store_members kvs Map.empty)\<rparr>)
           = Value js um key v result"
proof -
  let ?res = "result\<lparr>values_map := Some (store_members kvs Map.empty)\<rparr>"
  have ex: "extractValues js result = Inr ?res"
    using extractValues_first [OF assms(2) assms(1), of js] assms(3) by simp
  have rs: "resp ?res = Some r" using assms(1) by simp
  have cached: "extractValues js' ?res = Inr ?res" for js'
    by (rule extractValues_cached) simp
  have absent: "store_members kvs Map.empty key = None" if "key \<notin> fst ` set kvs"
    using store_members_absent [OF that, of Map.empty] by simp
  have present: "\<exists>d. store_members kvs Map.empty key = Some d" if "key \<in> fst ` set kvs"
    using that store_members_dom [of kvs Map.empty] by (auto simp: dom_def)
  have first: "Value js um key v result =
     (case store_members kvs Map.empty key of
        None \<Rightarrow> Inr (Some (GoError (''unknown return value '' @ key @ LF @ Body r)), v, ?res)
      | Some d \<Rightarrow>
          (case Encode js d of
             Inl e \<Rightarrow> Inr (Some (GoError (''unmarshal result('' @ key @ '') err '' @ error_text e @ LF @ Body r)), v, ?res)
           | Inr buff \<Rightarrow>
               (case um buff v of
                  (Some e, v') \<Rightarrow> Inr (Some (GoError (''unmarshal result('' @ key @ '') err '' @ error_text e @ LF @ buff)), v', ?res)
                | (None, v') \<Rightarrow> Inr (None, v', ?res))))"
    unfolding Value_after_extraction [OF ex rs] by (simp add: map_index_def)
  have again: "Value js um key v ?res = Value js um key v result"
    unfolding Value_after_extraction [OF ex rs] Value_after_extraction [OF cached rs] ..
  show ?thesis
    using first cached again absent present by (auto split: option.splits)
qed


theorem Value_result_id_42_witness:
  \<open>map_sum id fst
      (Value ref_json unmarshal_id_target ''result'' \<lparr>target_id = 0\<rparr>
         (newResult None (Some \<lparr>StatusCode = 200, Status = ''200 OK'', Body = ''{"result":{"id":42}}''\<rparr>)))
     = Inr None
   \<and> map_sum id (\<lambda>out. target_id (fst (snd out)))
      (Value ref_json unmarshal_id_target ''result'' \<lparr>target_id = 0\<rparr>
         (newResult None (Some \<lparr>StatusCode = 200, Status = ''200 OK'', Body = ''{"result":{"id":42}}''\<rparr>)))
     = Inr 42
   \<and> map_sum id fst
      (Value ref_json unmarshal_id_target ''missing'' \<lparr>target_id = 0\<rparr>
         (newResult None (Some \<lparr>StatusCode = 200, Status = ''200 OK'', Body = ''{"result":{"id":42}}''\<rparr>)))
     = Inr (Some (GoError (''unknown return value missing'' @ LF @ ''{"result":{"id":42}}'')))\<close>
proof -
  let ?r = \<open>\<lparr>StatusCode = 200, Status = ''200 OK'', Body = ''{"result":{"id":42}}''\<rparr>\<close>
  let ?kvs = "[(''result'', JObject [(''id'', JNumber 42)])]"
  have h1: "resp (newResult None (Some ?r)) = Some ?r" by (simp add: newResult_def)
  have h2: "values_map (newResult None (Some ?r)) = None" by (simp add: newResult_def)
  have h3: "Decode ref_json (Body ?r) = Inr (JObject ?kvs)" using decode_result_id_42 by simp
  have s: "store_members ?kvs Map.empty ''result'' = Some (JObject [(''id'', JNumber 42)])" by simp
  have m: "''missing'' \<notin> fst ` set ?kvs" by simp
  note t1 = Value_on_object_body [OF h1 h2 h3, of "''result''" unmarshal_id_target "\<lparr>target_id = 0\<rparr>"]
  note t2 = Value_on_object_body [OF h1 h2 h3, of "''missing''" unmarshal_id_target "\<lparr>target_id = 0\<rparr>"]
  have a: "Value ref_json unmarshal_id_target ''result'' \<lparr>target_id = 0\<rparr> (newResult None (Some ?r))
           = Inr (None, \<lparr>target_id = 42\<rparr>,
                  (newResult None (Some ?r))\<lparr>values_map := Some (store_members ?kvs Map.empty)\<rparr>)"
    using t1 s encode_id_42 unmarshal_id_42 by blast
  have b: "Value ref_json unmarshal_id_target ''missing'' \<lparr>target_id = 0\<rparr> (newResult None (Some ?r))
           = Inr (Some (GoError (''unknown return value '' @ ''missing'' @ LF @ Body ?r)), \<lparr>target_id = 0\<rparr>,
                  (newResult None (Some ?r))\<lparr>values_map := Some (store_members ?kvs Map.empty)\<rparr>)"
    using t2 m by blast
  show ?thesis unfolding a b by simp
qed

theorem Value_present_key_string_target_counterexample:
  \<open>map_sum id fst
      (Value ref_json unmarshal_string_target ''result'' []
         (newResult None (Some \<lparr>StatusCode = 200, Status = ''200 OK'', Body = ''{"result":{"id":42}}''\<rparr>)))
     = Inr (Some (GoError (''unmarshal result(result) err json: cannot unmarshal object into Go value of type string''
                           @ LF @ ''{"id":42}'')))\<close>
  using decode_result_id_42 encode_id_42 unmarshal_string_object
  by (simp add: Value_def extractValues_def newResult_def resp_Body_def Unmarshal_map_def map_index_def)


section \<open>Options in a verb call\<close>

lemma call_option_nil: "call_option option None = Inr raw \<Longrightarrow> raw = None"
  by (auto simp: call_option_def split: option.splits)

lemma apply_options_nil: "apply_options options None = Inr raw \<Longrightarrow> raw = None"
proof (induction options)
  case Nil
  then show ?case by simp
next
  case (Cons option options)
  then show ?case
    by (cases "call_option option None") (auto dest: call_option_nil)
qed

lemma WithJWToken_nil: "call_option (WithJWToken token) None = Inl NilPointerDereference"
  by (simp add: call_option_def WithJWToken_def)

lemma WithJWToken_first_panics:
  "apply_options (WithJWToken token # options) None = Inl NilPointerDereference"
  by (simp add: WithJWToken_nil)

text \<open>
  On a live request \<open>WithJWToken\<close> appends to the values of the header, so of two tokens
  both are kept and \<open>Header.Get\<close> reads the first.
\<close>

lemma WithJWToken_live:
  "call_option (WithJWToken token) (Some req)
     = Inr (Some (req\<lparr>Header := Header_Add ''Authorization'' (''Bearer '' @ token) (Header req)\<rparr>))"
  by (simp add: call_option_def WithJWToken_def)

lemma two_tokens_on_a_live_request:
  "apply_options [WithJWToken ''a'', WithJWToken ''b''] (Some \<lparr>Header = Map.empty\<rparr>)
     = Inr (Some \<lparr>Header = [''Authorization'' \<mapsto> [''Bearer a'', ''Bearer b'']]\<rparr>)
   \<and> Header_Get ''Authorization'' [''Authorization'' \<mapsto> [''Bearer a'', ''Bearer b'']] = ''Bearer a''"
  by (simp add: WithJWToken_live Header_Add_def Header_Get_def)

lemma POST_cases:
  "POST pf client path request options =
     (case apply_options options None of
        Inl p \<Rightarrow> Inl p
      | Inr raw \<Rightarrow>
          (case checkURL pf client (url client @ path) of
             Inl e \<Rightarrow> Inr (newResult (Some e) None, [])
           | Inr u \<Rightarrow>
               Inr (newResult (snd (Execute pf MethodPost ((SetBody request resty_R)\<lparr>RawRequest := raw\<rparr>) u))
                              (fst (Execute pf MethodPost ((SetBody request resty_R)\<lparr>RawRequest := raw\<rparr>) u)),
                    [(MethodPost, (SetBody request resty_R)\<lparr>RawRequest := raw\<rparr>, u)])))"
  by (simp add: POST_def Let_def SetBody_def resty_R_def split: sum.splits prod.splits)

lemma GET_cases:
  "GET pf client path request options =
     (case requestToMap pf client request of
        Inl e \<Rightarrow> Inr (newResult (Some e) None, [])
      | Inr params \<Rightarrow>
          (case apply_options options None of
             Inl p \<Rightarrow> Inl p
           | Inr raw \<Rightarrow>
               (case checkURL pf client (url client @ path) of
                  Inl e \<Rightarrow> Inr (newResult (Some e) None, [])
                | Inr u \<Rightarrow>
                    Inr (newResult (snd (Execute pf MethodGet ((SetQueryParams params resty_R)\<lparr>RawRequest := raw\<rparr>) u))
                                   (fst (Execute pf MethodGet ((SetQueryParams params resty_R)\<lparr>RawRequest := raw\<rparr>) u)),
                         [(MethodGet, (SetQueryParams params resty_R)\<lparr>RawRequest := raw\<rparr>, u)]))))"
  by (simp add: GET_def Let_def SetQueryParams_def resty_R_def split: sum.splits prod.splits)

lemma DELETE_cases:
  "DELETE pf client path request options =
     (case requestToMap pf client request of
        Inl e \<Rightarrow> Inr (newResult (Some e) None, [])
      | Inr params \<Rightarrow>
          (case apply_options options None of
             Inl p \<Rightarrow> Inl p
           | Inr raw \<Rightarrow>
               (case checkURL pf client (url client @ path) of
                  Inl e \<Rightarrow> Inr (newResult (Some e) None, [])
                | Inr u \<Rightarrow>
                    Inr (newResult (snd (Execute pf MethodDelete ((SetQueryParams params resty_R)\<lparr>RawRequest := raw\<rparr>) u))
                                   (fst (Execute pf MethodDelete ((SetQueryParams params resty_R)\<lparr>RawRequest := raw\<rparr>) u)),
                         [(MethodDelete, (SetQueryParams params resty_R)\<lparr>RawRequest := raw\<rparr>, u)]))))"
  by (simp add: DELETE_def Let_def SetQueryParams_def resty_R_def split: sum.splits prod.splits)

text \<open>
  Where a verb call returns, the raw request handed to the transport is still nil: no
  option's change reaches it.
\<close>

lemma sent_raw_request_is_nil:
  "POST pf client path request options = Inr (result, calls) \<Longrightarrow> set (sent_raw_requests calls) \<subseteq> {None}"
  "GET pf client path request options = Inr (result, calls) \<Longrightarrow> set (sent_raw_requests calls) \<subseteq> {None}"
  "DELETE pf client path request options = Inr (result, calls) \<Longrightarrow> set (sent_raw_requests calls) \<subseteq> {None}"
  by (auto simp: POST_cases GET_cases DELETE_cases sent_raw_requests_def
        split: sum.splits dest: apply_options_nil)

text \<open>
  C6. The verbs hand every option the pointer \<open>r.RawRequest\<close> of a fresh resty request,
  which is nil. \<open>WithJWToken\<close> reads the header through it: a \<open>POST\<close> with
  \<open>WithJWToken\<close> first among its options panics, and so do \<open>GET\<close> and \<open>DELETE\<close>
  once the payload has been converted. No \<open>Authorization\<close> header is set.
\<close>

theorem WithJWToken_in_a_verb_call_panics:
  "POST pf client path request (WithJWToken token # options) = Inl NilPointerDereference
   \<and> GET pf client path request (WithJWToken token # options)
       = (case requestToMap pf client request of
            Inl e \<Rightarrow> Inr (newResult (Some e) None, [])
          | Inr params \<Rightarrow> Inl NilPointerDereference)
   \<and> DELETE pf client path request (WithJWToken token # options)
       = (case requestToMap pf client request of
            Inl e \<Rightarrow> Inr (newResult (Some e) None, [])
          | Inr params \<Rightarrow> Inl NilPointerDereference)"
  by (simp add: POST_cases GET_cases DELETE_cases WithJWToken_nil split: sum.splits)


section \<open>Failures before the request is sent\<close>

lemma checkURL_cases:
  "checkURL pf client s =
     (case url_Parse pf s of
        Inl e \<Rightarrow> Inl e
      | Inr u \<Rightarrow> Inr (URL_String pf (u\<lparr>Path := filepath_Clean pf (Path u)\<rparr>)))"
  by (simp add: checkURL_def)

lemma requestToMap_errors:
  "(\<forall>e. Marshal pf request = Inl e \<longrightarrow> requestToMap pf client request = Inl e)
   \<and> (\<forall>buff e m. Marshal pf request = Inr buff \<longrightarrow> Unmarshal_map (json pf) buff None = (Some e, m) \<longrightarrow>
         requestToMap pf client request = Inl e)"
  by (simp add: requestToMap_def)

lemma error_Result:
  "Fail (newResult (Some e) None) = Inr True
   \<and> Error (newResult (Some e) None) = Inr (Some e)
   \<and> Response_of (newResult (Some e) None) = None"
  by (simp add: Fail_def OK_cases Error_cases Response_of_def newResult_def)

text \<open>
  Where the option loop returns (and for \<open>GET\<close> and \<open>DELETE\<close> where the payload fails
  to convert, which comes before the loop), a failure before sending gives the Result
  built from that error and no response, and no transport invocation.
\<close>

lemma preflight_failure_when_options_return:
  "(\<forall>e raw. url_Parse pf (url client @ path) = Inl e \<longrightarrow> apply_options options None = Inr raw \<longrightarrow>
       POST pf client path request options = Inr (newResult (Some e) None, []))
   \<and> (\<forall>e. requestToMap pf client request = Inl e \<longrightarrow>
       GET pf client path request options = Inr (newResult (Some e) None, [])
       \<and> DELETE pf client path request options = Inr (newResult (Some e) None, []))
   \<and> (\<forall>e params raw. requestToMap pf client request = Inr params \<longrightarrow>
       url_Parse pf (url client @ path) = Inl e \<longrightarrow> apply_options options None = Inr raw \<longrightarrow>
       GET pf client path request options = Inr (newResult (Some e) None, [])
       \<and> DELETE pf client path request options = Inr (newResult (Some e) None, []))"
  by (simp add: POST_cases GET_cases DELETE_cases checkURL_cases)

text \<open>
  C3. The option loop runs before the URL is checked, on the nil \<open>r.RawRequest\<close>. A
  call with a malformed URL and the option \<open>WithJWToken\<close> therefore panics in the loop
  and never returns the Result of the URL error, in \<open>POST\<close>, \<open>GET\<close> and \<open>DELETE\<close>
  alike. (The transport is not reached either way.)
\<close>

theorem malformed_URL_with_WithJWToken_panics:
  "checkURL (ref_platform [] (Some \<lparr>StatusCode = 200, Status = ''200 OK'', Body = ''{}''\<rparr>) None)
        (New '':bad'') (url (New '':bad'') @ ''/x'')
     = Inl (GoError ''parse :bad/x: missing protocol scheme'')
   \<and> POST (ref_platform [] (Some \<lparr>StatusCode = 200, Status = ''200 OK'', Body = ''{}''\<rparr>) None)
        (New '':bad'') ''/x'' (Tree JNull) [WithJWToken ''t'']
     = Inl NilPointerDereference
   \<and> GET (ref_platform [] (Some \<lparr>StatusCode = 200, Status = ''200 OK'', Body = ''{}''\<rparr>) None)
        (New '':bad'') ''/x'' (Tree (JObject [])) [WithJWToken ''t'']
     = Inl NilPointerDereference
   \<and> DELETE (ref_platform [] (Some \<lparr>StatusCode = 200, Status = ''200 OK'', Body = ''{}''\<rparr>) None)
        (New '':bad'') ''/x'' (Tree (JObject [])) [WithJWToken ''t'']
     = Inl NilPointerDereference
   \<and> POST (ref_platform [] (Some \<lparr>StatusCode = 200, Status = ''200 OK'', Body = ''{}''\<rparr>) None)
        (New '':bad'') ''/x'' (Tree JNull) []
     = Inr (newResult (Some (GoError ''parse :bad/x: missing protocol scheme'')) None, [])"
proof -
  let ?pf = "ref_platform [] (Some \<lparr>StatusCode = 200, Status = ''200 OK'', Body = ''{}''\<rparr>) None"
  have p: "checkURL ?pf (New '':bad'') (url (New '':bad'') @ ''/x'')
             = Inl (GoError ''parse :bad/x: missing protocol scheme'')"
    by (simp add: checkURL_cases ref_platform_def New_def ref_Parse_def)
  have m: "requestToMap ?pf (New '':bad'') (Tree (JObject []))
             = Inr (render_entries (Sprint_v ?pf) (range_entries ?pf (Some Map.empty)) Map.empty)"
    by (simp add: requestToMap_def ref_platform_def ref_Marshal_def ref_json_def ref_Decode_def
          Unmarshal_map_def)
  show ?thesis
    by (simp add: POST_cases GET_cases DELETE_cases WithJWToken_nil p m)
qed

section \<open>The unused \<open>auth\<close> field\<close>

lemma checkURL_client: "checkURL pf c1 s = checkURL pf c2 s"
  by (simp add: checkURL_def)

lemma requestToMap_client: "requestToMap pf c1 request = requestToMap pf c2 request"
  by (simp add: requestToMap_def)

text \<open>
  C10. \<open>New\<close> leaves the \<open>auth\<close> field nil, and no verb reads it (nor the lock): two
  clients with the same base URL build the same request, make the same transport
  invocation and return the same Result, or panic alike, whatever their \<open>auth\<close> fields
  and locks hold.
\<close>

theorem auth_field_never_read:
  "auth (New u) = None
   \<and> (url c1 = url c2 \<longrightarrow>
        POST pf c1 path request options = POST pf c2 path request options
        \<and> GET pf c1 path request options = GET pf c2 path request options
        \<and> DELETE pf c1 path request options = DELETE pf c2 path request options)"
proof -
  have n: "auth (New u) = None" by (simp add: New_def)
  have v: "POST pf c1 path request options = POST pf c2 path request options
        \<and> GET pf c1 path request options = GET pf c2 path request options
        \<and> DELETE pf c1 path request options = DELETE pf c2 path request options"
    if eq: "url c1 = url c2"
    unfolding POST_cases GET_cases DELETE_cases eq
      checkURL_client [of pf c1 "url c2 @ path" c2] requestToMap_client [of pf c1 request c2]
    by simp
  from n v show ?thesis by blast
qed

theorem auth_field_witness:
  "auth (New ''http://host/api/'') = None
   \<and> POST (ref_platform [] (Some \<lparr>StatusCode = 200, Status = ''200 OK'', Body = ''{}''\<rparr>) None)
        (New ''http://host/api/'') ''/v1//users'' (Tree JNull) []
     = POST (ref_platform [] (Some \<lparr>StatusCode = 200, Status = ''200 OK'', Body = ''{}''\<rparr>) None)
        ((New ''http://host/api/'')\<lparr>lock := RWMutex 1 True, auth := Some (Auth (WithJWToken ''secret''))\<rparr>)
        ''/v1//users'' (Tree JNull) []
   \<and> GET (ref_platform [] (Some \<lparr>StatusCode = 200, Status = ''200 OK'', Body = ''{}''\<rparr>) None)
        (New ''http://host/api/'') ''/v1//users'' (Tree JNull) []
     = GET (ref_platform [] (Some \<lparr>StatusCode = 200, Status = ''200 OK'', Body = ''{}''\<rparr>) None)
        ((New ''http://host/api/'')\<lparr>lock := RWMutex 1 True, auth := Some (Auth (WithJWToken ''secret''))\<rparr>)
        ''/v1//users'' (Tree JNull) []
   \<and> DELETE (ref_platform [] (Some \<lparr>StatusCode = 200, Status = ''200 OK'', Body = ''{}''\<rparr>) None)
        (New ''http://host/api/'') ''/v1//users'' (Tree JNull) []
     = DELETE (ref_platform [] (Some \<lparr>StatusCode = 200, Status = ''200 OK'', Body = ''{}''\<rparr>) None)
        ((New ''http://host/api/'')\<lparr>lock := RWMutex 1 True, auth := Some (Auth (WithJWToken ''secret''))\<rparr>)
        ''/v1//users'' (Tree JNull) []
   \<and> auth ((New ''http://host/api/'')\<lparr>lock := RWMutex 1 True, auth := Some (Auth (WithJWToken ''secret''))\<rparr>)
       \<noteq> auth (New ''http://host/api/'')"
proof -
  have u: "url (New ''http://host/api/'')
           = url ((New ''http://host/api/'')\<lparr>lock := RWMutex 1 True, auth := Some (Auth (WithJWToken ''secret''))\<rparr>)"
    by simp
  have d: "auth ((New ''http://host/api/'')\<lparr>lock := RWMutex 1 True, auth := Some (Auth (WithJWToken ''secret''))\<rparr>)
       \<noteq> auth (New ''http://host/api/'')"
    by (simp add: New_def)
  show ?thesis
    using auth_field_never_read
            [where ?c1.0 = "New ''http://host/api/''"
               and ?c2.0 = "(New ''http://host/api/'')\<lparr>lock := RWMutex 1 True, auth := Some (Auth (WithJWToken ''secret''))\<rparr>"
               and u = "''http://host/api/''"
               and pf = "ref_platform [] (Some \<lparr>StatusCode = 200, Status = ''200 OK'', Body = ''{}''\<rparr>) None"
               and path = "''/v1//users''" and request = "Tree JNull" and options = "[]"]
          u d
    by blast
qed


section \<open>The target URL\<close>

text \<open>
  C4 (as amended). In the variant with \<open>checkURL\<close> every verb call whose option loop
  returns parses the base URL followed by the path, cleans the path component of the
  parsed URL and sends to the URL written back. The verbs of \<open>src/client.go\<close> send to
  the base URL, a slash and the path as they are, with no parsing and no cleaning.
\<close>

theorem target_URL_of_a_verb_call:
  "(\<forall>u raw. url_Parse pf (url client @ path) = Inr u \<longrightarrow> apply_options options None = Inr raw \<longrightarrow>
       urls_sent (POST pf client path request options)
         = Inr [URL_String pf (u\<lparr>Path := filepath_Clean pf (Path u)\<rparr>)])
   \<and> (\<forall>u params raw. url_Parse pf (url client @ path) = Inr u \<longrightarrow>
       requestToMap pf client request = Inr params \<longrightarrow> apply_options options None = Inr raw \<longrightarrow>
       urls_sent (GET pf client path request options)
         = Inr [URL_String pf (u\<lparr>Path := filepath_Clean pf (Path u)\<rparr>)]
       \<and> urls_sent (DELETE pf client path request options)
         = Inr [URL_String pf (u\<lparr>Path := filepath_Clean pf (Path u)\<rparr>)])
   \<and> (\<forall>raw. apply_options options None = Inr raw \<longrightarrow>
       urls_sent (POST_client_go pf client path request options) = Inr [url client @ ''/'' @ path])
   \<and> (\<forall>buff params raw. Marshal pf request = Inr buff \<longrightarrow>
       Unmarshal_string_map (json pf) buff None = (None, params) \<longrightarrow>
       apply_options options None = Inr raw \<longrightarrow>
       urls_sent (GET_client_go pf client path request options) = Inr [url client @ ''/'' @ path]
       \<and> urls_sent (DELETE_client_go pf client path request options) = Inr [url client @ ''/'' @ path])"
proof -
  have a: "urls_sent (POST pf client path request options)
         = Inr [URL_String pf (u\<lparr>Path := filepath_Clean pf (Path u)\<rparr>)]"
    if "url_Parse pf (url client @ path) = Inr u" "apply_options options None = Inr raw" for u raw
    using that by (simp add: POST_cases checkURL_cases urls_sent_def sent_urls_def)
  have b: "urls_sent (GET pf client path request options)
         = Inr [URL_String pf (u\<lparr>Path := filepath_Clean pf (Path u)\<rparr>)]
       \<and> urls_sent (DELETE pf client path request options)
         = Inr [URL_String pf (u\<lparr>Path := filepath_Clean pf (Path u)\<rparr>)]"
    if "url_Parse pf (url client @ path) = Inr u" "requestToMap pf client request = Inr params"
      "apply_options options None = Inr raw"
    for u params raw
    using that by (simp add: GET_cases DELETE_cases checkURL_cases urls_sent_def sent_urls_def)
  have c: "urls_sent (POST_client_go pf client path request options) = Inr [url client @ ''/'' @ path]"
    if "apply_options options None = Inr raw" for raw
    using that
    by (simp add: POST_client_go_def urls_sent_def sent_urls_def Let_def SetBody_def resty_R_def
          split: prod.splits)
  have d: "urls_sent (GET_client_go pf client path request options) = Inr [url client @ ''/'' @ path]
       \<and> urls_sent (DELETE_client_go pf client path request options) = Inr [url client @ ''/'' @ path]"
    if "Marshal pf request = Inr buff" "Unmarshal_string_map (json pf) buff None = (None, params)"
      "apply_options options None = Inr raw"
    for buff params raw
    using that
    by (simp add: GET_client_go_def DELETE_client_go_def urls_sent_def sent_urls_def Let_def
          SetQueryParams_opt_def SetQueryParams_def resty_R_def split: prod.splits)
  show ?thesis using a b c d by blast
qed

theorem target_URL_witness:
  "urls_sent (POST (ref_platform [] None None) (New ''http://host/api/'') ''/v1//users'' (Tree JNull) [])
     = Inr [''http://host/api/v1/users'']
   \<and> urls_sent (GET (ref_platform [] None None) (New ''http://host/api/'') ''/./v1/../v2//users''
                   (Tree (JObject [])) [])
     = Inr [''http://host/api/v2/users'']
   \<and> urls_sent (DELETE (ref_platform [] None None) (New ''http://host/api/'') ''/./v1/../v2//users''
                   (Tree (JObject [])) [])
     = Inr [''http://host/api/v2/users'']"
proof -
  let ?pf = "ref_platform [] None None"
  let ?c = "New ''http://host/api/''"
  have p1: "url_Parse ?pf (url ?c @ ''/v1//users'')
              = Inr \<lparr>Scheme = ''http'', Opaque = [], Host = ''host'', Path = ''/api//v1//users'',
                     RawPath = [], RawQuery = [], Fragment = []\<rparr>"
    by code_simp
  have p2: "url_Parse ?pf (url ?c @ ''/./v1/../v2//users'')
              = Inr \<lparr>Scheme = ''http'', Opaque = [], Host = ''host'', Path = ''/api//./v1/../v2//users'',
                     RawPath = [], RawQuery = [], Fragment = []\<rparr>"
    by code_simp
  have s1: "URL_String ?pf (\<lparr>Scheme = ''http'', Opaque = [], Host = ''host'', Path = ''/api//v1//users'',
                     RawPath = [], RawQuery = [], Fragment = []\<rparr>
              \<lparr>Path := filepath_Clean ?pf ''/api//v1//users''\<rparr>) = ''http://host/api/v1/users''"
    by code_simp
  have s2: "URL_String ?pf (\<lparr>Scheme = ''http'', Opaque = [], Host = ''host'', Path = ''/api//./v1/../v2//users'',
                     RawPath = [], RawQuery = [], Fragment = []\<rparr>
              \<lparr>Path := filepath_Clean ?pf ''/api//./v1/../v2//users''\<rparr>) = ''http://host/api/v2/users''"
    by code_simp
  have m: "requestToMap ?pf ?c (Tree (JObject [])) = Inr (render_entries (Sprint_v ?pf) (range_entries ?pf (Some Map.empty)) Map.empty)"
    by (simp add: requestToMap_def ref_platform_def ref_Marshal_def ref_json_def ref_Decode_def
          Unmarshal_map_def)
  have o: "apply_options [] None = Inr None" by simp
  note t1 = target_URL_of_a_verb_call
              [where pf = ?pf and client = ?c and path = "''/v1//users''" and request = "Tree JNull"
                 and options = "[]"]
  note t2 = target_URL_of_a_verb_call
              [where pf = ?pf and client = ?c and path = "''/./v1/../v2//users''"
                 and request = "Tree (JObject [])" and options = "[]"]
  show ?thesis using t1 t2 p1 p2 m o s1 s2 by simp
qed

theorem client_go_sends_unnormalised_URL_counterexample:
  "urls_sent (POST_client_go (ref_platform [] None None) (New ''http://host/api/'') ''/v1//users''
                (Tree JNull) [])
     = Inr [''http://host/api///v1//users'']"
  by (simp add: POST_client_go_def urls_sent_def sent_urls_def New_def Let_def SetBody_def resty_R_def
        split: prod.splits)

section \<open>The payload as query parameters\<close>

lemma render_entries_distinct:
  "distinct (map fst kvs) \<Longrightarrow>
   render_entries f kvs r = (\<lambda>k. case map_of kvs k of None \<Rightarrow> r k | Some v \<Rightarrow> Some (f v))"
proof (induction kvs arbitrary: r)
  case Nil
  then show ?case by simp
next
  case (Cons kv kvs)
  obtain k v where kv: "kv = (k, v)" by (cases kv)
  have absent: "map_of kvs k = None"
    using Cons.prems kv by (simp add: map_of_eq_None_iff)
  have d: "distinct (map fst kvs)" using Cons.prems by simp
  show ?case
    unfolding kv render_entries.simps Cons.IH [OF d]
    using absent by (auto simp: fun_eq_iff split: option.splits)
qed

lemma render_entries_visits_all:
  assumes "visits_all order m"
  shows "render_entries f (order m) Map.empty = (\<lambda>k. map_option f (m k))"
proof -
  have d: "distinct (map fst (order m))" and e: "map_of (order m) = m"
    using assms by (simp_all add: visits_all_def)
  show ?thesis
    unfolding render_entries_distinct [OF d] e
    by (auto simp: fun_eq_iff split: option.splits)
qed

lemma store_string_members_error:
  "fst (store_string_members kvs (e, m)) =
     (case e of
        Some e' \<Rightarrow> Some e'
      | None \<Rightarrow>
          (case List.find (\<lambda>kv. \<not> string_or_null (snd kv)) kvs of
             None \<Rightarrow> None
           | Some kv \<Rightarrow> Some (UnmarshalTypeError (snd kv) ''string'')))"
  by (induction kvs "(e, m)" arbitrary: e m rule: store_string_members.induct)
     (auto split: option.splits)

lemma map_of_range_by:
  "distinct keys \<Longrightarrow> map_of (range_by keys m) k = (if k \<in> set keys then m k else None)"
  by (induction keys) (auto simp: range_by_def split: option.splits)

lemma fst_range_by: "map fst (range_by keys m) = filter (\<lambda>k. m k \<noteq> None) keys"
  by (induction keys) (auto simp: range_by_def split: option.splits)

lemma range_by_visits_all:
  assumes "distinct keys" and "dom m \<subseteq> set keys"
  shows "visits_all (range_by keys) m"
proof -
  have "map_of (range_by keys m) = m"
  proof
    fix k
    show "map_of (range_by keys m) k = m k"
    proof (cases "k \<in> set keys")
      case True
      then show ?thesis by (simp add: map_of_range_by [OF assms(1)])
    next
      case False
      then have "k \<notin> dom m" using assms(2) by blast
      then have "m k = None" by (simp add: domIff)
      with False show ?thesis by (simp add: map_of_range_by [OF assms(1)])
    qed
  qed
  moreover have "distinct (map fst (range_by keys m))"
    using assms(1) by (simp add: fst_range_by)
  ultimately show ?thesis by (simp add: visits_all_def)
qed


lemma marshal_example_payload:
  \<open>Marshal (ref_platform keys rsp e)
      (Tree (JObject [(''id'', JNumber 42), (''name'', JString ''bob''), (''ok'', JBool True)]))
    = Inr ''{"id":42,"name":"bob","ok":true}''\<close>
  by (simp add: ref_platform_def ref_Marshal_def show_int_def digit_char_def)

lemma decode_example_payload:
  \<open>Decode (json (ref_platform keys rsp e)) ''{"id":42,"name":"bob","ok":true}''
    = Inr (JObject [(''id'', JNumber 42), (''name'', JString ''bob''), (''ok'', JBool True)])\<close>
  by (simp add: ref_platform_def ref_json_def ref_Decode_def is_digit_def plain_digits_def
        read_nat_def digit_val_def)

text \<open>
  C5 (as amended). In the variant with \<open>requestToMap\<close>, a payload whose JSON is an object
  is converted to the map that sends each member's name to the default text of its value,
  in whatever order \<open>range\<close> visits the decoded map, so two conversions of one payload
  agree; a payload whose JSON is \<open>null\<close> gives the empty map, and one that does not
  marshal, or whose JSON does not decode or is another kind of value, gives that error
  and no map. In \<open>src/client.go\<close>, \<open>GET\<close> and \<open>DELETE\<close> decode into a
  \<open>map[string]string\<close>: a member that is neither a string nor \<open>null\<close> makes the
  call fail with the decoder's type error before anything is sent.
\<close>

theorem requestToMap_renders_every_member:
  "(\<forall>buff kvs. Marshal pf request = Inr buff \<longrightarrow> Decode (json pf) buff = Inr (JObject kvs) \<longrightarrow>
       visits_all (range_order pf) (store_members kvs Map.empty) \<longrightarrow>
       requestToMap pf client request
         = Inr (\<lambda>k. map_option (Sprint_v pf) (store_members kvs Map.empty k))
       \<and> (\<forall>order'. visits_all order' (store_members kvs Map.empty) \<longrightarrow>
             requestToMap (pf\<lparr>range_order := order'\<rparr>) client request
               = requestToMap pf client request))
   \<and> (\<forall>e. Marshal pf request = Inl e \<longrightarrow> requestToMap pf client request = Inl e)
   \<and> (\<forall>buff e. Marshal pf request = Inr buff \<longrightarrow> Decode (json pf) buff = Inl e \<longrightarrow>
         requestToMap pf client request = Inl e)
   \<and> (\<forall>buff. Marshal pf request = Inr buff \<longrightarrow> Decode (json pf) buff = Inr JNull \<longrightarrow>
         requestToMap pf client request = Inr Map.empty)
   \<and> (\<forall>buff v. Marshal pf request = Inr buff \<longrightarrow> Decode (json pf) buff = Inr v \<longrightarrow>
         v \<noteq> JNull \<longrightarrow> (\<forall>kvs. v \<noteq> JObject kvs) \<longrightarrow>
         requestToMap pf client request = Inl (UnmarshalTypeError v ''map[string]interface {}''))
   \<and> (\<forall>buff kvs kv. Marshal pf request = Inr buff \<longrightarrow> Decode (json pf) buff = Inr (JObject kvs) \<longrightarrow>
         List.find (\<lambda>kv. \<not> string_or_null (snd kv)) kvs = Some kv \<longrightarrow>
         GET_client_go pf client path request options
           = Inr (newResult (Some (UnmarshalTypeError (snd kv) ''string'')) None, [])
         \<and> DELETE_client_go pf client path request options
           = Inr (newResult (Some (UnmarshalTypeError (snd kv) ''string'')) None, []))"
proof -
  have a: "requestToMap pf client request
         = Inr (\<lambda>k. map_option (Sprint_v pf) (store_members kvs Map.empty k))
       \<and> (\<forall>order'. visits_all order' (store_members kvs Map.empty) \<longrightarrow>
             requestToMap (pf\<lparr>range_order := order'\<rparr>) client request
               = requestToMap pf client request)"
    if h: "Marshal pf request = Inr buff" "Decode (json pf) buff = Inr (JObject kvs)"
      "visits_all (range_order pf) (store_members kvs Map.empty)"
    for buff kvs
  proof -
    have u: "Unmarshal_map (json pf) buff None = (None, Some (store_members kvs Map.empty))"
      using h(2) by (simp add: Unmarshal_map_def)
    have r: "requestToMap pf' client request
               = Inr (\<lambda>k. map_option (Sprint_v pf) (store_members kvs Map.empty k))"
      if "Marshal pf' = Marshal pf" "json pf' = json pf" "Sprint_v pf' = Sprint_v pf"
        "visits_all (range_order pf') (store_members kvs Map.empty)"
      for pf' :: "'a platform"
      using that h(1) u
      by (simp add: requestToMap_def range_entries_def render_entries_visits_all)
    have "requestToMap pf client request
            = Inr (\<lambda>k. map_option (Sprint_v pf) (store_members kvs Map.empty k))"
      using h(3) by (intro r) simp_all
    moreover have "requestToMap (pf\<lparr>range_order := order'\<rparr>) client request
            = Inr (\<lambda>k. map_option (Sprint_v pf) (store_members kvs Map.empty k))"
      if "visits_all order' (store_members kvs Map.empty)" for order'
      using that by (intro r) simp_all
    ultimately show ?thesis by simp
  qed
  have b: "requestToMap pf client request = Inl e" if "Marshal pf request = Inl e" for e
    using that by (simp add: requestToMap_def)
  have c: "requestToMap pf client request = Inl e"
    if "Marshal pf request = Inr buff" "Decode (json pf) buff = Inl e" for buff e
    using that by (simp add: requestToMap_def Unmarshal_map_def)
  have d: "requestToMap pf client request = Inr Map.empty"
    if "Marshal pf request = Inr buff" "Decode (json pf) buff = Inr JNull" for buff
    using that by (simp add: requestToMap_def Unmarshal_map_def range_entries_def)
  have e: "requestToMap pf client request = Inl (UnmarshalTypeError v ''map[string]interface {}'')"
    if "Marshal pf request = Inr buff" "Decode (json pf) buff = Inr v" "v \<noteq> JNull"
      "\<forall>kvs. v \<noteq> JObject kvs" for buff v
    using that by (cases v) (simp_all add: requestToMap_def Unmarshal_map_def)
  have f: "GET_client_go pf client path request options
           = Inr (newResult (Some (UnmarshalTypeError (snd kv) ''string'')) None, [])
         \<and> DELETE_client_go pf client path request options
           = Inr (newResult (Some (UnmarshalTypeError (snd kv) ''string'')) None, [])"
    if h: "Marshal pf request = Inr buff" "Decode (json pf) buff = Inr (JObject kvs)"
      "List.find (\<lambda>kv. \<not> string_or_null (snd kv)) kvs = Some kv" for buff kvs kv
  proof -
    obtain e m where s: "store_string_members kvs (None, Map.empty) = (e, m)"
      by (cases "store_string_members kvs (None, Map.empty)")
    have "e = Some (UnmarshalTypeError (snd kv) ''string'')"
      using store_string_members_error [of kvs None Map.empty] h(3) s by simp
    then have "Unmarshal_string_map (json pf) buff None
                 = (Some (UnmarshalTypeError (snd kv) ''string''), Some m)"
      using h(2) s by (simp add: Unmarshal_string_map_def)
    then show ?thesis using h(1) by (simp add: GET_client_go_def DELETE_client_go_def)
  qed
  show ?thesis using a b c d e f by blast
qed


theorem requestToMap_witness:
  "map_sum id (\<lambda>m. map m [''id'', ''name'', ''ok'', ''other''])
      (requestToMap (ref_platform [''id'', ''name'', ''ok''] None None) (New ''http://host'')
         (Tree (JObject [(''id'', JNumber 42), (''name'', JString ''bob''), (''ok'', JBool True)])))
     = Inr [Some ''42'', Some ''bob'', Some ''true'', None]
   \<and> requestToMap (ref_platform [''ok'', ''name'', ''id''] None None) (New ''http://host'')
         (Tree (JObject [(''id'', JNumber 42), (''name'', JString ''bob''), (''ok'', JBool True)]))
     = requestToMap (ref_platform [''id'', ''name'', ''ok''] None None) (New ''http://host'')
         (Tree (JObject [(''id'', JNumber 42), (''name'', JString ''bob''), (''ok'', JBool True)]))"
proof -
  let ?pf = "ref_platform [''id'', ''name'', ''ok''] None None"
  let ?kvs = "[(''id'', JNumber 42), (''name'', JString ''bob''), (''ok'', JBool True)]"
  let ?c = "New ''http://host''"
  have v1: "visits_all (range_order ?pf) (store_members ?kvs Map.empty)"
  proof -
    have "visits_all (range_by [''id'', ''name'', ''ok'']) (store_members ?kvs Map.empty)"
      by (rule range_by_visits_all) (simp_all add: store_members_dom)
    then show ?thesis by (simp add: ref_platform_def)
  qed
  have v2: "visits_all (range_by [''ok'', ''name'', ''id'']) (store_members ?kvs Map.empty)"
    by (rule range_by_visits_all) (auto simp: store_members_dom)
  have p: "?pf\<lparr>range_order := range_by [''ok'', ''name'', ''id'']\<rparr>
           = ref_platform [''ok'', ''name'', ''id''] None None"
    by (simp add: ref_platform_def)
  note t = requestToMap_renders_every_member
             [where pf = ?pf and request = "Tree (JObject ?kvs)" and client = ?c
                and path = "[]" and options = "[]"]
  have a: "requestToMap ?pf ?c (Tree (JObject ?kvs))
             = Inr (\<lambda>k. map_option (Sprint_v ?pf) (store_members ?kvs Map.empty k))"
    using t marshal_example_payload [of "[''id'', ''name'', ''ok'']" None None]
      decode_example_payload [of "[''id'', ''name'', ''ok'']" None None] v1
    by blast
  have b: "requestToMap (?pf\<lparr>range_order := range_by [''ok'', ''name'', ''id'']\<rparr>) ?c (Tree (JObject ?kvs))
             = requestToMap ?pf ?c (Tree (JObject ?kvs))"
    using t marshal_example_payload [of "[''id'', ''name'', ''ok'']" None None]
      decode_example_payload [of "[''id'', ''name'', ''ok'']" None None] v1 v2
    by blast
  have s: "Sprint_v ?pf = show_v" by (simp add: ref_platform_def)
  show ?thesis
    using b unfolding p a s by (simp add: show_int_def digit_char_def)
qed

theorem query_map_conversion_counterexample:
  "GET_client_go (ref_platform [''id''] None None) (New ''http://host'') ''/users''
       (Tree (JObject [(''id'', JNumber 42)])) []
     = Inr (newResult (Some (GoError ''json: cannot unmarshal number into Go value of type string'')) None, [])
   \<and> requestToMap (ref_platform [''id''] None None) (New ''http://host'') (Tree (JNumber 5))
     = Inl (GoError ''json: cannot unmarshal number into Go value of type map[string]interface {}'')"
  by (simp add: UnmarshalTypeError_def GET_client_go_def requestToMap_def Unmarshal_string_map_def Unmarshal_map_def
        ref_platform_def ref_Marshal_def ref_json_def ref_Decode_def show_int_def digit_char_def
        is_digit_def plain_digits_def read_nat_def digit_val_def)




end
